theory Spec2Isabelle
  imports Complex_Main
begin

section \<open>PolicyInterpreter (ylearn/effect_interpreter/policy_interpreter.py)\<close>

text \<open>
  A shallow embedding of the class \<^verbatim>\<open>PolicyInterpreter\<close>: its constructor, \<^verbatim>\<open>fit\<close>
  and \<^verbatim>\<open>interpret\<close>. Attributes are record fields, every \<^verbatim>\<open>raise\<close> and failing
  \<^verbatim>\<open>assert\<close> is a value of the exception type, and the mutation of \<^verbatim>\<open>self\<close> is explicit:
  \<^verbatim>\<open>fit\<close> returns what the call raised or returned together with the instance as the call
  left it, also when it raised.
\<close>

subsection \<open>Python values, exceptions, arrays\<close>

datatype pyval = PNone | PBool bool | PInt int | PFloat real | PStr string

datatype exn =
    AssertionError string
  | TypeError string
  | ValueError string
  | NotImplementedError
  | OtherError string

text \<open>
  A numpy array: its shape and its elements in row-major order. \<^verbatim>\<open>ndim\<close> is the length of
  the shape, \<^verbatim>\<open>size\<close> the product of its entries.
\<close>

record ndarray =
  shape :: "nat list"
  elems :: "real list"

definition ndim :: "ndarray \<Rightarrow> nat" where
  "ndim a = length (shape a)"

definition size_of :: "ndarray \<Rightarrow> nat" where
  "size_of a = prod_list (shape a)"

text \<open>
  \<^verbatim>\<open>a.reshape(n, -1)\<close>: a new array with \<open>n\<close> rows and the inferred number of columns.
  It raises ValueError when the second dimension cannot be inferred (\<open>n = 0\<close>, or the size
  is not a multiple of \<open>n\<close>). The array \<open>a\<close> itself is never modified.
\<close>

definition reshape :: "ndarray \<Rightarrow> nat \<Rightarrow> exn + ndarray" where
  "reshape a n =
     (if n = 0 \<or> size_of a mod n \<noteq> 0
      then Inl (ValueError ''cannot reshape array'')
      else Inr (a\<lparr>shape := [n, size_of a div n]\<rparr>))"

subsection \<open>The instance\<close>

text \<open>
  The eleven configuration attributes, under the keyword names both \<^verbatim>\<open>__init__\<close> and
  the call \<^verbatim>\<open>PolicyTree(...)\<close> use.
\<close>

record hyperparams =
  criterion :: pyval
  splitter :: pyval
  max_depth :: pyval
  min_samples_split :: pyval
  min_samples_leaf :: pyval
  random_state :: pyval
  max_leaf_nodes :: pyval
  max_features :: pyval
  min_impurity_decrease :: pyval
  ccp_alpha :: pyval
  min_weight_fraction_leaf :: pyval

text \<open>
  The instance: the configuration and \<^verbatim>\<open>_is_fitted\<close>, \<^verbatim>\<open>treatment\<close>, \<^verbatim>\<open>outcome\<close>,
  \<^verbatim>\<open>v\<close>, \<^verbatim>\<open>_tree\<close>. The last two do not exist before \<^verbatim>\<open>fit\<close> assigns them: \<open>None\<close>.
  The type \<open>'t\<close> is the policy tree object.
\<close>

record 't PolicyInterpreter = hyperparams +
  is_fitted :: bool
  treatment :: pyval
  outcome :: pyval
  v :: "ndarray option"
  tree :: "'t option"

text \<open>
  \<^verbatim>\<open>__init__(self, *, criterion=..., splitter=..., ...)\<close>, the arguments in the order of
  the signature. It has no branch and no raise.
\<close>

definition init ::
  "pyval \<Rightarrow> pyval \<Rightarrow> pyval \<Rightarrow> pyval \<Rightarrow> pyval \<Rightarrow> pyval \<Rightarrow> pyval \<Rightarrow> pyval \<Rightarrow> pyval \<Rightarrow> pyval \<Rightarrow> pyval
     \<Rightarrow> 't PolicyInterpreter" where
  "init criterion' splitter' max_depth' min_samples_split' min_samples_leaf' random_state'
        max_leaf_nodes' max_features' min_impurity_decrease' ccp_alpha'
        min_weight_fraction_leaf' =
     \<lparr> criterion = criterion',
       splitter = splitter',
       max_depth = max_depth',
       min_samples_split = min_samples_split',
       min_samples_leaf = min_samples_leaf',
       random_state = random_state',
       max_leaf_nodes = max_leaf_nodes',
       max_features = max_features',
       min_impurity_decrease = min_impurity_decrease',
       ccp_alpha = ccp_alpha',
       min_weight_fraction_leaf = min_weight_fraction_leaf',
       is_fitted = False,
       treatment = PNone,
       outcome = PNone,
       v = None,
       tree = None \<rparr>"

text \<open>\<^verbatim>\<open>PolicyInterpreter()\<close>: every argument at its default.\<close>

definition init_default :: "'t PolicyInterpreter" where
  "init_default =
     init (PStr ''policy_reg'') (PStr ''best'') PNone (PInt 2) (PInt 1) (PInt 2022)
          PNone PNone (PFloat 0) (PFloat 0) (PFloat 0)"

subsection \<open>The collaborators\<close>

text \<open>
  \<^verbatim>\<open>est_model\<close>: the attributes \<^verbatim>\<open>covariate\<close> (column names or None), \<^verbatim>\<open>outcome\<close>,
  \<^verbatim>\<open>_is_fitted\<close> and the method \<^verbatim>\<open>estimate(data, quantity, **kwargs)\<close>, which returns an
  array or raises. The type \<open>'d\<close> is the data frame.
\<close>

type_synonym kwargs = "(string \<times> pyval) list"

record 'd est_model =
  em_covariate :: "string list option"
  em_outcome :: "string list"
  em_is_fitted :: bool
  em_estimate :: "'d \<Rightarrow> pyval \<Rightarrow> kwargs \<Rightarrow> exn + ndarray"

text \<open>
  \<^verbatim>\<open>convert2array\<close> (ylearn.utils._common) and \<^verbatim>\<open>PolicyTree\<close> (ylearn.policy.policy_model)
  are imported by the module and defined elsewhere: they are parameters here.
  \<^verbatim>\<open>convert2array(data, covariate, outcome)\<close> returns the pair \<open>(v, y)\<close> or raises;
  \<^verbatim>\<open>PolicyTree(**hyperparams)\<close> returns a tree or raises; \<^verbatim>\<open>tree.fit(data, covariate,
  effect_array)\<close> mutates the tree and may raise: it gives the exception, if any, and the
  tree as the call left it.
\<close>

record ('d, 't) collaborators =
  convert2array :: "'d \<Rightarrow> string list \<Rightarrow> string list \<Rightarrow> exn + (ndarray \<times> ndarray)"
  PolicyTree :: "hyperparams \<Rightarrow> exn + 't"
  tree_fit :: "'t \<Rightarrow> 'd \<Rightarrow> string list \<Rightarrow> ndarray \<Rightarrow> exn option \<times> 't"

text \<open>The calls \<^verbatim>\<open>fit\<close> makes to its collaborators, with their arguments, in order.\<close>

datatype ('d, 't) event =
    Convert2array 'd "string list" "string list"
  | Estimate 'd pyval kwargs
  | TreeInit hyperparams
  | TreeFit 't 'd "string list" ndarray

text \<open>What \<^verbatim>\<open>fit\<close> returns: the receiver.\<close>

datatype ret = Self

subsection \<open>fit\<close>

text \<open>
  \<^verbatim>\<open>fit(self, data, est_model, **kwargs)\<close>, statement by statement. The result is
  what the call raised (\<open>Inl\<close>) or returned (\<open>Inr\<close>), the instance afterwards, and the
  collaborator calls made.

  \<^item> The two leading asserts raise AssertionError.
  \<^item> \<^verbatim>\<open>n, _y_d = y.shape\<close> raises ValueError unless the shape has two entries; only then
    is \<^verbatim>\<open>self.v\<close> assigned, and only then \<^verbatim>\<open>_y_d == 1\<close> asserted.
  \<^item> \<^verbatim>\<open>est_model.estimate(data=data, quantity=None, **kwargs)\<close> raises TypeError, before
    the method is entered, when \<^verbatim>\<open>kwargs\<close> repeats one of the two keywords.
  \<^item> The value of \<^verbatim>\<open>causal_effect.reshape(n, -1)\<close> is dropped; its exception is not.
  \<^item> \<^verbatim>\<open>self._tree\<close> is assigned before \<^verbatim>\<open>self._tree.fit\<close> runs.
\<close>

definition fit ::
  "('d, 't) collaborators \<Rightarrow> 't PolicyInterpreter \<Rightarrow> 'd \<Rightarrow> 'd est_model \<Rightarrow> kwargs
     \<Rightarrow> (exn + ret) \<times> 't PolicyInterpreter \<times> ('d, 't) event list" where
  "fit env self data est_model kwargs =
     (case em_covariate est_model of
        None \<Rightarrow>
          (Inl (AssertionError ''Need covariate to interpret the causal effect.''), self, [])
      | Some covariate \<Rightarrow>
          if \<not> em_is_fitted est_model then (Inl (AssertionError []), self, [])
          else
            let log1 = [Convert2array data covariate (em_outcome est_model)] in
            case convert2array env data covariate (em_outcome est_model) of
              Inl e \<Rightarrow> (Inl e, self, log1)
            | Inr (v', y) \<Rightarrow>
                (case shape y of
                   [n, y_d] \<Rightarrow>
                     let self1 = self\<lparr>v := Some v'\<rparr> in
                     if y_d \<noteq> 1 then (Inl (AssertionError []), self1, log1)
                     else if ''data'' \<in> set (map fst kwargs) \<or> ''quantity'' \<in> set (map fst kwargs)
                     then (Inl (TypeError ''got multiple values for keyword argument''),
                           self1, log1)
                     else
                       let log2 = log1 @ [Estimate data PNone kwargs] in
                       (case em_estimate est_model data PNone kwargs of
                          Inl e \<Rightarrow> (Inl e, self1, log2)
                        | Inr causal_effect \<Rightarrow>
                            (case (if ndim causal_effect = 3
                                   then map_sum id (\<lambda>_. ()) (reshape causal_effect n)
                                   else Inr ()) of
                               Inl e \<Rightarrow> (Inl e, self1, log2)
                             | Inr _ \<Rightarrow>
                                 let hp = \<lparr> criterion = criterion self,
                                            splitter = splitter self,
                                            max_depth = max_depth self,
                                            min_samples_split = min_samples_split self,
                                            min_samples_leaf = min_samples_leaf self,
                                            random_state = random_state self,
                                            max_leaf_nodes = max_leaf_nodes self,
                                            max_features = max_features self,
                                            min_impurity_decrease = min_impurity_decrease self,
                                            ccp_alpha = ccp_alpha self,
                                            min_weight_fraction_leaf =
                                              min_weight_fraction_leaf self \<rparr>;
                                     log3 = log2 @ [TreeInit hp]
                                 in
                                 (case PolicyTree env hp of
                                    Inl e \<Rightarrow> (Inl e, self1, log3)
                                  | Inr t \<Rightarrow>
                                      let log4 = log3 @ [TreeFit t data covariate causal_effect];
                                          (r, t') = tree_fit env t data covariate causal_effect;
                                          self2 = self1\<lparr>tree := Some t'\<rparr>
                                      in
                                      (case r of
                                         Some e \<Rightarrow> (Inl e, self2, log4)
                                       | None \<Rightarrow> (Inr Self, self2\<lparr>is_fitted := True\<rparr>, log4)))))
                 | _ \<Rightarrow>
                     (Inl (ValueError ''wrong number of values to unpack''), self, log1)))"

subsection \<open>interpret\<close>

text \<open>
  \<^verbatim>\<open>NotImplemented\<close> is a constant, not an exception class: it is not callable, and
  calling it raises TypeError. \<^verbatim>\<open>NotImplementedError\<close> is the exception class, and calling
  it gives an exception to raise.
\<close>

datatype builtin = NotImplemented | NotImplementedError_class

fun call_builtin :: "builtin \<Rightarrow> exn + exn" where
  "call_builtin NotImplemented = Inl (TypeError ''NotImplementedType object is not callable'')"
| "call_builtin NotImplementedError_class = Inr NotImplementedError"

text \<open>
  \<^verbatim>\<open>interpret(self)\<close>: the assert, then \<^verbatim>\<open>raise NotImplemented()\<close>, whose operand is
  evaluated first. Neither branch has a return statement.
\<close>

definition interpret_method :: "'t PolicyInterpreter \<Rightarrow> exn + pyval" where
  "interpret_method self =
     (if \<not> is_fitted self
      then Inl (AssertionError ''The model is not fitted yet. Please use the fit method first.'')
      else (case call_builtin NotImplemented of Inl e \<Rightarrow> Inl e | Inr x \<Rightarrow> Inl x))"

subsection \<open>A small concrete setting\<close>

text \<open>
  Stand-ins for the collaborators, for the closed examples below. The data frame is its
  number of rows; \<open>convert2array\<close> gives zero matrices with one column per selected name;
  the estimator returns a zero array of shape \<open>rows # sh\<close>; the tree keeps its keyword
  arguments and the effect array it was fitted on.
\<close>

record stub_tree =
  params :: hyperparams
  effect_array :: "ndarray option"

definition zeros :: "nat list \<Rightarrow> ndarray" where
  "zeros sh = \<lparr>shape = sh, elems = replicate (prod_list sh) 0\<rparr>"

definition stub_env :: "(nat, stub_tree) collaborators" where
  "stub_env =
     \<lparr> convert2array = (\<lambda>rows cov out. Inr (zeros [rows, length cov], zeros [rows, length out])),
       PolicyTree = (\<lambda>hp. Inr \<lparr>params = hp, effect_array = None\<rparr>),
       tree_fit = (\<lambda>t rows cov e. (None, t\<lparr>effect_array := Some e\<rparr>)) \<rparr>"

definition stub_model :: "string list option \<Rightarrow> string list \<Rightarrow> bool \<Rightarrow> nat list \<Rightarrow> nat est_model" where
  "stub_model cov out fitted sh =
     \<lparr> em_covariate = cov,
       em_outcome = out,
       em_is_fitted = fitted,
       em_estimate = (\<lambda>rows quantity kw. Inr (zeros (rows # sh))) \<rparr>"

definition default_hp :: hyperparams where
  "default_hp =
     \<lparr> criterion = PStr ''policy_reg'', splitter = PStr ''best'', max_depth = PNone,
       min_samples_split = PInt 2, min_samples_leaf = PInt 1, random_state = PInt 2022,
       max_leaf_nodes = PNone, max_features = PNone, min_impurity_decrease = PFloat 0,
       ccp_alpha = PFloat 0, min_weight_fraction_leaf = PFloat 0 \<rparr>"

definition stub_fitted :: "nat list \<Rightarrow> stub_tree PolicyInterpreter" where
  "stub_fitted sh =
     init_default
       \<lparr> v := Some (zeros [2, 2]),
         tree := Some \<lparr>params = default_hp, effect_array = Some (zeros (2 # sh))\<rparr>,
         is_fitted := True \<rparr>"

definition stub_log :: "nat list \<Rightarrow> (nat, stub_tree) event list" where
  "stub_log sh =
     [Convert2array 2 [''x1'', ''x2''] [''y''],
      Estimate 2 PNone [],
      TreeInit default_hp,
      TreeFit \<lparr>params = default_hp, effect_array = None\<rparr> 2 [''x1'', ''x2''] (zeros (2 # sh))]"

section \<open>Properties\<close>

subsection \<open>Evaluation of the concrete setting\<close>

lemmas stub_defs =
  stub_env_def stub_model_def default_hp_def stub_fitted_def stub_log_def zeros_def
  init_default_def init_def ndim_def size_of_def reshape_def

lemma stub_fit_3d:
  "fit stub_env init_default 2 (stub_model (Some [''x1'', ''x2'']) [''y''] True [2, 1]) []
     = (Inr Self, stub_fitted [2, 1], stub_log [2, 1])"
  by (simp add: fit_def stub_defs Let_def)

lemma stub_fit_2d:
  "fit stub_env init_default 2 (stub_model (Some [''x1'', ''x2'']) [''y''] True [2]) []
     = (Inr Self, stub_fitted [2], stub_log [2])"
  by (simp add: fit_def stub_defs Let_def)

lemma stub_refit:
  "fit stub_env (stub_fitted [2, 1]) 2 (stub_model (Some [''x1'', ''x2'']) [''y''] True [2]) []
     = (Inr Self, stub_fitted [2], stub_log [2])"
  by (simp add: fit_def stub_defs Let_def)

lemma stub_fit_two_outcomes:
  "fit stub_env init_default 2 (stub_model (Some [''x1'', ''x2'']) [''y'', ''z''] True [2]) []
     = (Inl (AssertionError []), init_default\<lparr>v := Some (zeros [2, 2])\<rparr>,
        [Convert2array 2 [''x1'', ''x2''] [''y'', ''z'']])"
  by (simp add: fit_def stub_defs Let_def)

lemma stub_fit_unfitted:
  "fit stub_env init_default 2 (stub_model (Some [''x1'', ''x2'']) [''y''] False [2]) []
     = (Inl (AssertionError []), init_default, [])"
  by (simp add: fit_def stub_defs Let_def)

subsection \<open>What a returning call does to the instance, and what the tree is fitted on\<close>

lemma fit_returns:
  assumes "fit env s d em kw = (Inr Self, s', l)"
  shows "\<exists>a t. s' = s\<lparr>v := Some a, tree := Some t, is_fitted := True\<rparr>"
  using assms
  by (auto simp: fit_def Let_def split: option.splits sum.splits list.splits prod.splits if_splits)

lemma fit_frame:
  assumes "fit env (s\<lparr>v := a, tree := b, is_fitted := c\<rparr>) d em kw = (Inr Self, s', l)"
  shows "fit env s d em kw = (Inr Self, s', l)"
  using assms
  by (auto simp: fit_def Let_def split: option.splits sum.splits list.splits prod.splits if_splits)

lemma fit_tree_fit_events:
  assumes "fit env s d em kw = (r, s', l)"
      and "TreeFit t d' c e \<in> set l"
  shows "d' = d \<and> em_covariate em = Some c \<and> em_estimate em d PNone kw = Inr e"
  using assms
  by (auto simp: fit_def Let_def split: option.splits sum.splits list.splits prod.splits if_splits)

lemma reshape_ndim:
  assumes "reshape a n = Inr b"
  shows "ndim b = 2"
  using assms by (auto simp: reshape_def ndim_def split: if_splits)

subsection \<open>The constructor\<close>

text \<open>
  C8. For every combination of argument values the constructor stores each of the eleven
  configuration arguments, unchanged, in the attribute of the same name. It checks nothing:
  it is a total function with no error result, defined for every eleven values.
\<close>

theorem init_stores_verbatim:
  "criterion (init a1 a2 a3 a4 a5 a6 a7 a8 a9 a10 a11) = a1
   \<and> splitter (init a1 a2 a3 a4 a5 a6 a7 a8 a9 a10 a11) = a2
   \<and> max_depth (init a1 a2 a3 a4 a5 a6 a7 a8 a9 a10 a11) = a3
   \<and> min_samples_split (init a1 a2 a3 a4 a5 a6 a7 a8 a9 a10 a11) = a4
   \<and> min_samples_leaf (init a1 a2 a3 a4 a5 a6 a7 a8 a9 a10 a11) = a5
   \<and> random_state (init a1 a2 a3 a4 a5 a6 a7 a8 a9 a10 a11) = a6
   \<and> max_leaf_nodes (init a1 a2 a3 a4 a5 a6 a7 a8 a9 a10 a11) = a7
   \<and> max_features (init a1 a2 a3 a4 a5 a6 a7 a8 a9 a10 a11) = a8
   \<and> min_impurity_decrease (init a1 a2 a3 a4 a5 a6 a7 a8 a9 a10 a11) = a9
   \<and> ccp_alpha (init a1 a2 a3 a4 a5 a6 a7 a8 a9 a10 a11) = a10
   \<and> min_weight_fraction_leaf (init a1 a2 a3 a4 a5 a6 a7 a8 a9 a10 a11) = a11"
  by (simp add: init_def)

text \<open>
  C10. For every configuration a new instance has \<^verbatim>\<open>_is_fitted\<close> false and
  \<^verbatim>\<open>treatment\<close> and \<^verbatim>\<open>outcome\<close> None, and \<^verbatim>\<open>interpret()\<close> on it fails with the
  "not fitted" assertion error.
\<close>

theorem fresh_instance_not_fitted:
  "is_fitted (init a1 a2 a3 a4 a5 a6 a7 a8 a9 a10 a11) = False
   \<and> treatment (init a1 a2 a3 a4 a5 a6 a7 a8 a9 a10 a11) = PNone
   \<and> outcome (init a1 a2 a3 a4 a5 a6 a7 a8 a9 a10 a11) = PNone
   \<and> interpret_method (init a1 a2 a3 a4 a5 a6 a7 a8 a9 a10 a11)
       = Inl (AssertionError ''The model is not fitted yet. Please use the fit method first.'')"
  by (simp add: init_def interpret_method_def)

subsection \<open>fit: the effect array handed to the tree\<close>

text \<open>
  C1. Whenever the call reaches the policy tree with a 3-D estimate \<open>a\<close> (the three
  preconditions hold, \<^verbatim>\<open>estimate\<close> returns \<open>a\<close>, the reshape computes some \<open>b\<close> and the
  tree is constructed), the tree's \<^verbatim>\<open>fit\<close> is applied to \<open>a\<close> itself: the outcome of the
  call and the tree stored in \<^verbatim>\<open>_tree\<close> are those of \<^verbatim>\<open>tree.fit(data, covariate, a)\<close>.
  The reshaped array \<open>b\<close> has two dimensions, differs from \<open>a\<close>, and occurs nowhere in
  the result.
\<close>

theorem fit_passes_3d_effect_unflattened:
  assumes cov: "em_covariate em = Some c"
      and fitted: "em_is_fitted em"
      and conv: "convert2array env d c (em_outcome em) = Inr (v', y)"
      and univ: "shape y = [n, 1]"
      and kw: "''data'' \<notin> set (map fst kw)" "''quantity'' \<notin> set (map fst kw)"
      and est: "em_estimate em d PNone kw = Inr a"
      and dim: "ndim a = 3"
      and resh: "reshape a n = Inr b"
      and ctor: "PolicyTree env
                   \<lparr> criterion = criterion s, splitter = splitter s, max_depth = max_depth s,
                     min_samples_split = min_samples_split s,
                     min_samples_leaf = min_samples_leaf s,
                     random_state = random_state s, max_leaf_nodes = max_leaf_nodes s,
                     max_features = max_features s,
                     min_impurity_decrease = min_impurity_decrease s,
                     ccp_alpha = ccp_alpha s,
                     min_weight_fraction_leaf = min_weight_fraction_leaf s \<rparr> = Inr t"
  shows "fit env s d em kw =
           (case tree_fit env t d c a of
              (None, t') \<Rightarrow>
                (Inr Self, s\<lparr>v := Some v', tree := Some t', is_fitted := True\<rparr>,
                 [Convert2array d c (em_outcome em), Estimate d PNone kw,
                  TreeInit
                    \<lparr> criterion = criterion s, splitter = splitter s, max_depth = max_depth s,
                      min_samples_split = min_samples_split s,
                      min_samples_leaf = min_samples_leaf s,
                      random_state = random_state s, max_leaf_nodes = max_leaf_nodes s,
                      max_features = max_features s,
                      min_impurity_decrease = min_impurity_decrease s,
                      ccp_alpha = ccp_alpha s,
                      min_weight_fraction_leaf = min_weight_fraction_leaf s \<rparr>,
                  TreeFit t d c a])
            | (Some x, t') \<Rightarrow>
                (Inl x, s\<lparr>v := Some v', tree := Some t'\<rparr>,
                 [Convert2array d c (em_outcome em), Estimate d PNone kw,
                  TreeInit
                    \<lparr> criterion = criterion s, splitter = splitter s, max_depth = max_depth s,
                      min_samples_split = min_samples_split s,
                      min_samples_leaf = min_samples_leaf s,
                      random_state = random_state s, max_leaf_nodes = max_leaf_nodes s,
                      max_features = max_features s,
                      min_impurity_decrease = min_impurity_decrease s,
                      ccp_alpha = ccp_alpha s,
                      min_weight_fraction_leaf = min_weight_fraction_leaf s \<rparr>,
                  TreeFit t d c a]))
         \<and> ndim a = 3 \<and> ndim b = 2 \<and> b \<noteq> a"
proof -
  have b: "ndim b = 2" using resh by (rule reshape_ndim)
  with dim have ne: "b \<noteq> a" by auto
  have "fit env s d em kw = (case tree_fit env t d c a of
              (None, t') \<Rightarrow>
                (Inr Self, s\<lparr>v := Some v', tree := Some t', is_fitted := True\<rparr>,
                 [Convert2array d c (em_outcome em), Estimate d PNone kw,
                  TreeInit
                    \<lparr> criterion = criterion s, splitter = splitter s, max_depth = max_depth s,
                      min_samples_split = min_samples_split s,
                      min_samples_leaf = min_samples_leaf s,
                      random_state = random_state s, max_leaf_nodes = max_leaf_nodes s,
                      max_features = max_features s,
                      min_impurity_decrease = min_impurity_decrease s,
                      ccp_alpha = ccp_alpha s,
                      min_weight_fraction_leaf = min_weight_fraction_leaf s \<rparr>,
                  TreeFit t d c a])
            | (Some x, t') \<Rightarrow>
                (Inl x, s\<lparr>v := Some v', tree := Some t'\<rparr>,
                 [Convert2array d c (em_outcome em), Estimate d PNone kw,
                  TreeInit
                    \<lparr> criterion = criterion s, splitter = splitter s, max_depth = max_depth s,
                      min_samples_split = min_samples_split s,
                      min_samples_leaf = min_samples_leaf s,
                      random_state = random_state s, max_leaf_nodes = max_leaf_nodes s,
                      max_features = max_features s,
                      min_impurity_decrease = min_impurity_decrease s,
                      ccp_alpha = ccp_alpha s,
                      min_weight_fraction_leaf = min_weight_fraction_leaf s \<rparr>,
                  TreeFit t d c a]))"
    using cov fitted conv univ kw est dim resh ctor
    by (simp add: fit_def Let_def split: prod.splits option.splits del: set_map)
  with dim b ne show ?thesis by simp
qed

text \<open>
  The default instance on two rows with an estimator returning a \<open>2 \<times> 2 \<times> 1\<close> array:
  the fitted tree holds that array, not its \<open>2 \<times> 2\<close> reshape.
\<close>

theorem fit_passes_3d_effect_unflattened_witness:
  "em_covariate (stub_model (Some [''x1'', ''x2'']) [''y''] True [2, 1]) = Some [''x1'', ''x2'']
   \<and> em_is_fitted (stub_model (Some [''x1'', ''x2'']) [''y''] True [2, 1])
   \<and> convert2array stub_env 2 [''x1'', ''x2'']
        (em_outcome (stub_model (Some [''x1'', ''x2'']) [''y''] True [2, 1]))
       = Inr (zeros [2, 2], zeros [2, 1])
   \<and> shape (zeros [2, 1]) = [2, 1]
   \<and> ''data'' \<notin> set (map fst ([] :: kwargs))
   \<and> ''quantity'' \<notin> set (map fst ([] :: kwargs))
   \<and> em_estimate (stub_model (Some [''x1'', ''x2'']) [''y''] True [2, 1]) 2 PNone []
       = Inr (zeros [2, 2, 1])
   \<and> ndim (zeros [2, 2, 1]) = 3
   \<and> reshape (zeros [2, 2, 1]) 2 = Inr (zeros [2, 2])
   \<and> PolicyTree stub_env default_hp = Inr \<lparr>params = default_hp, effect_array = None\<rparr>
   \<and> fit stub_env init_default 2 (stub_model (Some [''x1'', ''x2'']) [''y''] True [2, 1]) []
       = (Inr Self,
          init_default
            \<lparr> v := Some (zeros [2, 2]),
              tree := Some \<lparr>params = default_hp, effect_array = Some (zeros [2, 2, 1])\<rparr>,
              is_fitted := True \<rparr>,
          stub_log [2, 1])
   \<and> zeros [2, 2] \<noteq> zeros [2, 2, 1]"
  using fit_passes_3d_effect_unflattened
    [where em = "stub_model (Some [''x1'', ''x2'']) [''y''] True [2, 1]"
       and c = "[''x1'', ''x2'']" and env = stub_env and d = 2
       and v' = "zeros [2, 2]" and y = "zeros [2, 1]" and n = 2 and kw = "[]"
       and a = "zeros [2, 2, 1]" and b = "zeros [2, 2]"
       and s = "init_default :: stub_tree PolicyInterpreter"
       and t = "\<lparr>params = default_hp, effect_array = None\<rparr>"]
  by (simp add: stub_defs)

subsection \<open>fit: the returning path\<close>

text \<open>
  C2, as amended. When the three preconditions hold (covariate not None, estimator fitted,
  \<open>y\<close> of shape \<open>(n, 1)\<close>) and every later step completes (\<^verbatim>\<open>kwargs\<close> repeats neither
  \<^verbatim>\<open>data\<close> nor \<^verbatim>\<open>quantity\<close>, \<^verbatim>\<open>estimate\<close> returns an array, the reshape of a 3-D result
  does not raise, \<^verbatim>\<open>PolicyTree(...)\<close> and the tree's \<^verbatim>\<open>fit\<close> return), the call constructs
  the tree from exactly the instance's eleven configuration attributes, fits it on
  (data, covariate, effect array), sets \<^verbatim>\<open>_is_fitted\<close>, stores the covariate matrix in
  \<^verbatim>\<open>v\<close> and returns self.
\<close>

theorem fit_success:
  assumes cov: "em_covariate em = Some c"
      and fitted: "em_is_fitted em"
      and conv: "convert2array env d c (em_outcome em) = Inr (v', y)"
      and univ: "shape y = [n, 1]"
      and kw: "''data'' \<notin> set (map fst kw)" "''quantity'' \<notin> set (map fst kw)"
      and est: "em_estimate em d PNone kw = Inr ce"
      and resh: "ndim ce = 3 \<longrightarrow> \<not> isl (reshape ce n)"
      and ctor: "PolicyTree env
                   \<lparr> criterion = criterion s, splitter = splitter s, max_depth = max_depth s,
                     min_samples_split = min_samples_split s,
                     min_samples_leaf = min_samples_leaf s,
                     random_state = random_state s, max_leaf_nodes = max_leaf_nodes s,
                     max_features = max_features s,
                     min_impurity_decrease = min_impurity_decrease s,
                     ccp_alpha = ccp_alpha s,
                     min_weight_fraction_leaf = min_weight_fraction_leaf s \<rparr> = Inr t"
      and tfit: "tree_fit env t d c ce = (None, t')"
  shows "fit env s d em kw =
           (Inr Self,
            s\<lparr>v := Some v', tree := Some t', is_fitted := True\<rparr>,
            [Convert2array d c (em_outcome em),
             Estimate d PNone kw,
             TreeInit
               \<lparr> criterion = criterion s, splitter = splitter s, max_depth = max_depth s,
                 min_samples_split = min_samples_split s,
                 min_samples_leaf = min_samples_leaf s,
                 random_state = random_state s, max_leaf_nodes = max_leaf_nodes s,
                 max_features = max_features s,
                 min_impurity_decrease = min_impurity_decrease s,
                 ccp_alpha = ccp_alpha s,
                 min_weight_fraction_leaf = min_weight_fraction_leaf s \<rparr>,
             TreeFit t d c ce])"
proof -
  have "(if ndim ce = 3 then map_sum id (\<lambda>_. ()) (reshape ce n) else Inr ()) = Inr ()"
    using resh by (cases "reshape ce n") auto
  then show ?thesis
    using cov fitted conv univ kw est ctor tfit
    by (simp add: fit_def Let_def del: set_map)
qed

text \<open>
  The default instance, two rows, a fitted estimator with one outcome column and a 3-D
  estimate.
\<close>

theorem fit_success_witness:
  "em_covariate (stub_model (Some [''x1'', ''x2'']) [''y''] True [2, 1]) = Some [''x1'', ''x2'']
   \<and> em_is_fitted (stub_model (Some [''x1'', ''x2'']) [''y''] True [2, 1])
   \<and> convert2array stub_env 2 [''x1'', ''x2'']
        (em_outcome (stub_model (Some [''x1'', ''x2'']) [''y''] True [2, 1]))
       = Inr (zeros [2, 2], zeros [2, 1])
   \<and> shape (zeros [2, 1]) = [2, 1]
   \<and> ''data'' \<notin> set (map fst ([] :: kwargs))
   \<and> ''quantity'' \<notin> set (map fst ([] :: kwargs))
   \<and> em_estimate (stub_model (Some [''x1'', ''x2'']) [''y''] True [2, 1]) 2 PNone []
       = Inr (zeros [2, 2, 1])
   \<and> ndim (zeros [2, 2, 1]) = 3
   \<and> \<not> isl (reshape (zeros [2, 2, 1]) 2)
   \<and> PolicyTree stub_env default_hp = Inr \<lparr>params = default_hp, effect_array = None\<rparr>
   \<and> tree_fit stub_env \<lparr>params = default_hp, effect_array = None\<rparr> 2 [''x1'', ''x2'']
        (zeros [2, 2, 1])
       = (None, \<lparr>params = default_hp, effect_array = Some (zeros [2, 2, 1])\<rparr>)
   \<and> fit stub_env init_default 2 (stub_model (Some [''x1'', ''x2'']) [''y''] True [2, 1]) []
       = (Inr Self, stub_fitted [2, 1], stub_log [2, 1])"
  using fit_success
    [where em = "stub_model (Some [''x1'', ''x2'']) [''y''] True [2, 1]"
       and c = "[''x1'', ''x2'']" and env = stub_env and d = 2
       and v' = "zeros [2, 2]" and y = "zeros [2, 1]" and n = 2 and kw = "[]"
       and ce = "zeros [2, 2, 1]" and s = "init_default :: stub_tree PolicyInterpreter"
       and t = "\<lparr>params = default_hp, effect_array = None\<rparr>"
       and t' = "\<lparr>params = default_hp, effect_array = Some (zeros [2, 2, 1])\<rparr>"]
  by (simp add: stub_defs)

text \<open>
  C2 as stated fails: the three preconditions alone do not make the call return. With
  \<^verbatim>\<open>fit(data, est_model, quantity='ATE')\<close> the call
  \<^verbatim>\<open>estimate(data=data, quantity=None, **kwargs)\<close> raises TypeError; no tree is constructed
  and \<^verbatim>\<open>_is_fitted\<close> stays false.
\<close>

theorem fit_three_preconditions_counterexample:
  "em_covariate (stub_model (Some [''x1'', ''x2'']) [''y''] True [2]) = Some [''x1'', ''x2'']
   \<and> em_is_fitted (stub_model (Some [''x1'', ''x2'']) [''y''] True [2])
   \<and> convert2array stub_env 2 [''x1'', ''x2'']
        (em_outcome (stub_model (Some [''x1'', ''x2'']) [''y''] True [2]))
       = Inr (zeros [2, 2], zeros [2, 1])
   \<and> shape (zeros [2, 1]) = [2, 1]
   \<and> fit stub_env init_default 2 (stub_model (Some [''x1'', ''x2'']) [''y''] True [2])
        [(''quantity'', PStr ''ATE'')]
       = (Inl (TypeError ''got multiple values for keyword argument''),
          init_default\<lparr>v := Some (zeros [2, 2])\<rparr>,
          [Convert2array 2 [''x1'', ''x2''] [''y'']])
   \<and> \<not> is_fitted (init_default\<lparr>v := Some (zeros [2, 2])\<rparr> :: stub_tree PolicyInterpreter)"
  by (simp add: fit_def stub_defs Let_def)

subsection \<open>fit: refitting\<close>

text \<open>
  C7. When two calls of \<^verbatim>\<open>fit\<close> on the same instance both return, the instance after the
  second call is the one the second call alone produces from the original instance, with the
  same collaborator calls: in particular \<^verbatim>\<open>v\<close>, \<^verbatim>\<open>_tree\<close> and \<^verbatim>\<open>_is_fitted\<close> agree.
  Nothing of the first fit is kept.
\<close>

theorem fit_twice_is_second_fit:
  assumes "fit env s d1 em1 kw1 = (Inr Self, s1, l1)"
      and "fit env s1 d2 em2 kw2 = (Inr Self, s2, l2)"
  shows "fit env s d2 em2 kw2 = (Inr Self, s2, l2)
         \<and> v s2 = v (fst (snd (fit env s d2 em2 kw2)))
         \<and> tree s2 = tree (fst (snd (fit env s d2 em2 kw2)))
         \<and> is_fitted s2 = is_fitted (fst (snd (fit env s d2 em2 kw2)))"
proof -
  obtain a t where s1: "s1 = s\<lparr>v := Some a, tree := Some t, is_fitted := True\<rparr>"
    using fit_returns[OF assms(1)] by blast
  have "fit env (s\<lparr>v := Some a, tree := Some t, is_fitted := True\<rparr>) d2 em2 kw2
          = (Inr Self, s2, l2)"
    using assms(2) unfolding s1 .
  then have "fit env s d2 em2 kw2 = (Inr Self, s2, l2)"
    by (rule fit_frame)
  then show ?thesis by simp
qed

text \<open>
  A fit on a 3-D estimate followed by a fit on a 2-D estimate, against the second fit
  alone.
\<close>

theorem fit_twice_is_second_fit_witness:
  "fit stub_env init_default 2 (stub_model (Some [''x1'', ''x2'']) [''y''] True [2, 1]) []
     = (Inr Self, stub_fitted [2, 1], stub_log [2, 1])
   \<and> fit stub_env (stub_fitted [2, 1]) 2 (stub_model (Some [''x1'', ''x2'']) [''y''] True [2]) []
     = (Inr Self, stub_fitted [2], stub_log [2])
   \<and> fit stub_env init_default 2 (stub_model (Some [''x1'', ''x2'']) [''y''] True [2]) []
     = (Inr Self, stub_fitted [2], stub_log [2])"
  using fit_twice_is_second_fit
    [of stub_env init_default 2 "stub_model (Some [''x1'', ''x2'']) [''y''] True [2, 1]" "[]"
        "stub_fitted [2, 1]" "stub_log [2, 1]" 2
        "stub_model (Some [''x1'', ''x2'']) [''y''] True [2]" "[]" "stub_fitted [2]" "stub_log [2]"]
    stub_fit_3d stub_refit
  by simp

subsection \<open>fit: failing preconditions\<close>

text \<open>
  C5. When \<^verbatim>\<open>est_model._is_fitted\<close> is false the call raises AssertionError, whatever the
  other inputs; the instance is untouched and no collaborator is called.
\<close>

theorem fit_raises_when_estimator_unfitted:
  assumes "\<not> em_is_fitted em"
  shows "\<exists>msg. fit env s d em kw = (Inl (AssertionError msg), s, [])"
  using assms by (simp add: fit_def split: option.splits)

text \<open>
  An estimator that is not fitted, everything else in order.
\<close>

theorem fit_raises_when_estimator_unfitted_witness:
  "\<not> em_is_fitted (stub_model (Some [''x1'', ''x2'']) [''y''] False [2])
   \<and> fit stub_env init_default 2 (stub_model (Some [''x1'', ''x2'']) [''y''] False [2]) []
       = (Inl (AssertionError []), init_default, [])"
  using fit_raises_when_estimator_unfitted
    [of "stub_model (Some [''x1'', ''x2'']) [''y''] False [2]" stub_env init_default 2 "[]"]
    stub_fit_unfitted
  by (simp add: stub_model_def)

text \<open>
  C6. When the covariate is not None, the estimator is fitted and the outcome resolves to
  an array \<open>y\<close> with \<^verbatim>\<open>y.shape[1] != 1\<close>, the call raises.
\<close>

theorem fit_raises_when_outcome_not_univariate:
  assumes "em_covariate em = Some c"
      and "em_is_fitted em"
      and "convert2array env d c (em_outcome em) = Inr (v', y)"
      and "1 < length (shape y)"
      and "shape y ! 1 \<noteq> 1"
  shows "isl (fst (fit env s d em kw))"
  using assms
  by (auto simp: fit_def Let_def split: list.splits)

text \<open>
  Two outcome columns.
\<close>

theorem fit_raises_when_outcome_not_univariate_witness:
  "em_covariate (stub_model (Some [''x1'', ''x2'']) [''y'', ''z''] True [2]) = Some [''x1'', ''x2'']
   \<and> em_is_fitted (stub_model (Some [''x1'', ''x2'']) [''y'', ''z''] True [2])
   \<and> convert2array stub_env 2 [''x1'', ''x2'']
        (em_outcome (stub_model (Some [''x1'', ''x2'']) [''y'', ''z''] True [2]))
       = Inr (zeros [2, 2], zeros [2, 2])
   \<and> 1 < length (shape (zeros [2, 2]))
   \<and> shape (zeros [2, 2]) ! 1 \<noteq> 1
   \<and> isl (fst (fit stub_env init_default 2
                 (stub_model (Some [''x1'', ''x2'']) [''y'', ''z''] True [2]) []))"
  using fit_raises_when_outcome_not_univariate
    [of "stub_model (Some [''x1'', ''x2'']) [''y'', ''z''] True [2]" "[''x1'', ''x2'']"
        stub_env 2 "zeros [2, 2]" "zeros [2, 2]" init_default "[]"]
  by (simp add: stub_model_def stub_env_def zeros_def)

text \<open>
  C4, as amended. When one of the three preconditions fails (covariate None, estimator
  not fitted, or the outcome array not of shape \<open>(n, 1)\<close>), the call raises, no policy
  tree has been constructed, and \<^verbatim>\<open>_is_fitted\<close> and \<^verbatim>\<open>_tree\<close> are as they were before
  the call: an instance that was not fit-marked is not fit-marked afterwards.
\<close>

theorem fit_failed_precondition_keeps_fit_mark:
  assumes "fit env s d em kw = (r, s', l)"
      and "em_covariate em = None \<or> \<not> em_is_fitted em
           \<or> (\<exists>c v' y. em_covariate em = Some c
                 \<and> convert2array env d c (em_outcome em) = Inr (v', y)
                 \<and> (\<forall>n. shape y \<noteq> [n, 1]))"
  shows "isl r \<and> (\<forall>hp. TreeInit hp \<notin> set l) \<and> is_fitted s' = is_fitted s \<and> tree s' = tree s"
  using assms
  by (auto simp: fit_def Let_def split: option.splits list.splits if_splits)

text \<open>
  The default instance and two outcome columns: \<^verbatim>\<open>_is_fitted\<close> remains false.
\<close>

theorem fit_failed_precondition_keeps_fit_mark_witness:
  "fit stub_env init_default 2 (stub_model (Some [''x1'', ''x2'']) [''y'', ''z''] True [2]) []
     = (Inl (AssertionError []), init_default\<lparr>v := Some (zeros [2, 2])\<rparr>,
        [Convert2array 2 [''x1'', ''x2''] [''y'', ''z'']])
   \<and> em_covariate (stub_model (Some [''x1'', ''x2'']) [''y'', ''z''] True [2]) = Some [''x1'', ''x2'']
   \<and> convert2array stub_env 2 [''x1'', ''x2'']
        (em_outcome (stub_model (Some [''x1'', ''x2'']) [''y'', ''z''] True [2]))
       = Inr (zeros [2, 2], zeros [2, 2])
   \<and> shape (zeros [2, 2]) = [2, 2]
   \<and> isl (Inl (AssertionError []) :: exn + ret)
   \<and> is_fitted (init_default\<lparr>v := Some (zeros [2, 2])\<rparr> :: stub_tree PolicyInterpreter)
       = is_fitted (init_default :: stub_tree PolicyInterpreter)
   \<and> \<not> is_fitted (init_default\<lparr>v := Some (zeros [2, 2])\<rparr> :: stub_tree PolicyInterpreter)
   \<and> tree (init_default\<lparr>v := Some (zeros [2, 2])\<rparr> :: stub_tree PolicyInterpreter) = None"
  using fit_failed_precondition_keeps_fit_mark
    [of stub_env init_default 2 "stub_model (Some [''x1'', ''x2'']) [''y'', ''z''] True [2]" "[]"
        "Inl (AssertionError [])" "init_default\<lparr>v := Some (zeros [2, 2])\<rparr>"
        "[Convert2array 2 [''x1'', ''x2''] [''y'', ''z'']]"]
    stub_fit_two_outcomes
  by (simp add: stub_model_def stub_env_def zeros_def init_default_def init_def)

text \<open>
  C4 as stated fails on a refit. After a returning fit, a second call on three rows with two
  outcome columns fails the outcome check: the instance is still fit-marked, with
  \<^verbatim>\<open>v\<close> replaced by the new covariate matrix and the tree of the first fit kept.
\<close>

theorem fit_failed_precondition_refit_counterexample:
  "fit stub_env init_default 2 (stub_model (Some [''x1'', ''x2'']) [''y''] True [2, 1]) []
     = (Inr Self, stub_fitted [2, 1], stub_log [2, 1])
   \<and> em_covariate (stub_model (Some [''x1'', ''x2'']) [''y'', ''z''] True [2]) = Some [''x1'', ''x2'']
   \<and> em_is_fitted (stub_model (Some [''x1'', ''x2'']) [''y'', ''z''] True [2])
   \<and> convert2array stub_env 3 [''x1'', ''x2'']
        (em_outcome (stub_model (Some [''x1'', ''x2'']) [''y'', ''z''] True [2]))
       = Inr (zeros [3, 2], zeros [3, 2])
   \<and> shape (zeros [3, 2]) = [3, 2]
   \<and> fit stub_env (stub_fitted [2, 1]) 3
        (stub_model (Some [''x1'', ''x2'']) [''y'', ''z''] True [2]) []
       = (Inl (AssertionError []), (stub_fitted [2, 1])\<lparr>v := Some (zeros [3, 2])\<rparr>,
          [Convert2array 3 [''x1'', ''x2''] [''y'', ''z'']])
   \<and> is_fitted ((stub_fitted [2, 1])\<lparr>v := Some (zeros [3, 2])\<rparr>)
   \<and> v ((stub_fitted [2, 1])\<lparr>v := Some (zeros [3, 2])\<rparr>) = Some (zeros [3, 2])
   \<and> v (stub_fitted [2, 1]) = Some (zeros [2, 2])
   \<and> tree ((stub_fitted [2, 1])\<lparr>v := Some (zeros [3, 2])\<rparr>) = tree (stub_fitted [2, 1])"
  using stub_fit_3d by (simp add: fit_def stub_defs Let_def)



subsection \<open>interpret\<close>

text \<open>
  C3. On a fitted instance \<^verbatim>\<open>interpret()\<close> evaluates \<^verbatim>\<open>NotImplemented()\<close>, which raises
  TypeError: what the caller receives is not a NotImplementedError.
\<close>

theorem interpret_after_fit_raises_TypeError:
  "fit stub_env init_default 2 (stub_model (Some [''x1'', ''x2'']) [''y''] True [2]) []
     = (Inr Self, stub_fitted [2], stub_log [2])
   \<and> interpret_method (stub_fitted [2])
       = Inl (TypeError ''NotImplementedType object is not callable'')
   \<and> interpret_method (stub_fitted [2]) \<noteq> Inl NotImplementedError"
  using stub_fit_2d by (simp add: interpret_method_def stub_fitted_def)

end
